theory Spec2Isabelle
  imports Main "HOL-Library.AList" "HOL-Library.Sublist"
begin

section \<open>Data of the compiler\<close>

type_synonym path = string

text \<open>\<open>ts.ModuleKind\<close>.\<close>

datatype module_kind =
  MK_None | CommonJS | AMD | UMD | System | ES2015 | ES2020 | ES2022 | ESNext
  | Node16 | NodeNext | Preserve

text \<open>The fields of \<open>ts.CompilerOptions\<close> that the code reads or writes.\<close>

record compiler_options =
  co_module :: "module_kind option"
  co_esModuleInterop :: "bool option"
  co_moduleResolution :: "nat option"
  co_customConditions :: "string list option"
  co_allowJs :: bool
  co_sourceMap :: bool
  co_isolatedModules :: bool

datatype diagnostic = Diagnostic nat string

text \<open>
  Messages of \<open>utils/messages\<close>, interpolated: a constructor carries the file the message
  names.
\<close>

datatype message =
  GotJsFileButAllowJsFalse path
  | CannotProcessFileReturnOriginal path
  | UsingModernNodeResolution
  | InvalidModuleKindForEsm
  | GotUnknownFileTypeWithBabel path
  | GotUnknownFileTypeWithoutBabel path
  | GlobalsTsJestConfigOption
  | NoMatchingConfigSet

datatype error =
  CannotProcessFile path              \<comment> \<open>\<open>new Error(interpolate(Errors.CannotProcessFile, {file}))\<close>\<close>
  | UnableToRequireDefinitionFile string  \<comment> \<open>the \<open>TypeError\<close> naming \<open>basename(fileName)\<close>\<close>
  | TsError "diagnostic list"         \<comment> \<open>what the reporting policy or \<open>createTsError\<close> builds\<close>
  | JsTypeError                       \<comment> \<open>reading a property of \<open>undefined\<close>\<close>
  | ENOENT path                       \<comment> \<open>\<open>statSync\<close> of a missing file\<close>
  | ServiceError string               \<comment> \<open>thrown by the language service\<close>
  | ExternalError string              \<comment> \<open>thrown by babel-jest or by the hook\<close>

text \<open>Calls of the external collaborators and log entries, in order (debug entries left out).\<close>

datatype event =
  LogWarn message
  | LogError message
  | LogInfo message
  | EmitRequested path
  | SemanticDiagnosticsRequested path
  | SyntacticDiagnosticsRequested path
  | DiagnosticsRaised "diagnostic list" path
  | Transpiled path "module_kind option"

record emit_output =
  emitSkipped :: bool
  outputFiles :: "string list"   \<comment> \<open>the \<open>text\<close> of each output file\<close>

record transpile_output =
  outputText :: string
  sourceMapText :: "string option"
  to_diagnostics :: "diagnostic list option"

record compiled_output =
  code :: string
  diagnostics :: "diagnostic list option"

text \<open>\<open>ResolvedModuleFull\<close>: the two fields \<open>_getImportedModulePaths\<close> reads.\<close>

record resolved_module =
  resolvedFileName :: string
  isExternalLibraryImport :: bool

text \<open>What the language service sees of its host: versions, contents, project version, settings.\<close>

type_synonym host_view =
  "(path \<times> nat) list \<times> (path \<times> string option) list \<times> nat \<times> compiler_options"

section \<open>Configuration\<close>

text \<open>
  \<open>ConfigSet\<close> is not among the sources: it is a record of the members the code uses.
  \<open>raiseDiagnostics\<close> returns the error it throws, or \<open>None\<close> when it returns (having
  logged or not).
\<close>

record babel_jest =
  bj_process :: "string \<Rightarrow> path \<Rightarrow> error + string"
  bj_processAsync :: "string \<Rightarrow> path \<Rightarrow> error + string"

record config_set =
  cs_isolatedModules :: bool
  cs_useESM :: bool
  cs_cwd :: string
  cs_rootDir :: string
  cs_tsCacheDir :: "string option"
  cs_cacheSuffix :: string
  parsedTsConfig_options :: compiler_options
  parsedTsConfig_fileNames :: "path list"
  shouldReportDiagnostics :: "path \<Rightarrow> bool"
  raiseDiagnostics :: "diagnostic list \<Rightarrow> path \<Rightarrow> error option"
  createTsError :: "diagnostic list \<Rightarrow> error"
  shouldStringifyContent :: "path \<Rightarrow> bool"
  babelJestTransformer :: "babel_jest option"
  isTestFile :: "path \<Rightarrow> bool"

text \<open>
  The configuration object of the test runner. \<open>cfg_ref\<close> is the identity of the live
  object (what \<open>===\<close> compares); the other fields are its content: \<open>cacheDirectory\<close>,
  \<open>globals['ts-jest']\<close> and the rest, both opaque.
\<close>

record jest_config =
  cfg_ref :: nat
  cacheDirectory :: "string option"
  globals_ts_jest :: "string option"
  cfg_rest :: string

section \<open>External collaborators\<close>

text \<open>
  The TypeScript module, node's \<open>path\<close> and \<open>fs\<close> modules, and the modules of the
  repository that are not among the sources (\<open>constants\<close>, \<open>compiler-utils\<close>,
  \<open>transpile-module\<close>, \<open>sha1\<close>, \<open>stringify\<close>) are parameters of the model, gathered in one
  record. A JavaScript \<open>undefined\<close> is \<open>None\<close>. The language service answers from what its
  host shows it; before it answers it fetches the snapshots of the files in \<open>ls_reads\<close>.
  A request to the service may throw (it does for a file it cannot find), so its answers
  are sums.
\<close>

record extern =
  preProcessFile :: "string \<Rightarrow> string list"
    \<comment> \<open>\<open>ts.preProcessFile(text, true, true).importedFiles\<close>, the \<open>fileName\<close> of each\<close>
  resolveModuleName :: "string \<Rightarrow> path \<Rightarrow> resolved_module option"
    \<comment> \<open>\<open>ts.resolveModuleName(name, containingFile, ...).resolvedModule\<close>\<close>
  readFile :: "path \<Rightarrow> string option"
    \<comment> \<open>the memoized \<open>ts.sys.readFile\<close>\<close>
  normalize :: "path \<Rightarrow> path"
  basename :: "path \<Rightarrow> string"
  path_sep :: char
  JS_JSX_REGEX :: "path \<Rightarrow> bool"
  TS_TSX_REGEX :: "path \<Rightarrow> bool"
  DECLARATION_TYPE_EXT :: string
  isModernNodeModuleKind :: "module_kind option \<Rightarrow> bool"
  moduleResolutionNode10 :: nat
  updateOutput :: "string \<Rightarrow> path \<Rightarrow> string option \<Rightarrow> string"
  transpileModule :: "string \<Rightarrow> path \<Rightarrow> compiler_options \<Rightarrow> bool \<Rightarrow> transpile_output"
  tsTranspileModule :: "string \<Rightarrow> path \<Rightarrow> compiler_options \<Rightarrow> bool \<Rightarrow> transpile_output"
  ls_reads :: "path \<Rightarrow> path list"
  ls_program_reads :: "path list"
  ls_getEmitOutput :: "host_view \<Rightarrow> path \<Rightarrow> error + emit_output"
  ls_getSemanticDiagnostics :: "host_view \<Rightarrow> path \<Rightarrow> error + diagnostic list"
  ls_getSyntacticDiagnostics :: "host_view \<Rightarrow> path \<Rightarrow> error + diagnostic list"
  mtimeMs :: "path \<Rightarrow> string option"
    \<comment> \<open>the file system: \<open>statSync(p).mtimeMs.toString()\<close>, \<open>None\<close> for a file that does not exist\<close>
  sha1 :: "string list \<Rightarrow> string"
  stringify :: "string \<Rightarrow> string"
  argv_watch :: bool
    \<comment> \<open>\<open>process.argv.includes('--watch')\<close>\<close>
  createConfigSet :: "jest_config \<Rightarrow> config_set"
    \<comment> \<open>\<open>new ConfigSet(config)\<close>\<close>
  stringify_config :: "jest_config \<Rightarrow> string"
    \<comment> \<open>\<open>stringify(config)\<close>, also the \<open>serialized\<close> of a \<open>JsonableValue\<close>\<close>
  mergeTransformerOptions :: "string option \<Rightarrow> string \<Rightarrow> string"
    \<comment> \<open>the spread \<open>{...tsJestGlobalsConfig, ...this.transformerOptions}\<close>\<close>
  env_TS_JEST_HOOKS :: "string option"
  loadHooks :: "string \<Rightarrow> string \<Rightarrow> (string \<Rightarrow> path \<Rightarrow> string \<Rightarrow> error + string option) option"
    \<comment> \<open>\<open>importer.tryTheseOr(path.resolve(cwd, hooksFile), {}).afterProcess\<close>\<close>

section \<open>The compiler's mutable state\<close>

text \<open>
  \<open>Map<string, string>\<close> objects that are shared by reference (the run-time cache of the
  test runner) live in a store indexed by address. A map is an association list in
  insertion order; \<open>set\<close> is \<open>AList.update\<close>. A stored \<open>undefined\<close> is \<open>None\<close>.
\<close>

type_synonym string_map = "(path \<times> string option) list"

record compiler_state =
  configSet :: config_set
  fsStore :: "nat \<Rightarrow> string_map"
  ctorCacheFS :: nat        \<comment> \<open>\<open>this.runtimeCacheFS\<close>, the constructor's parameter property\<close>
  runtimeCacheFS :: nat     \<comment> \<open>\<open>this._runtimeCacheFS\<close>\<close>
  fileContentCache :: string_map
  fileVersionCache :: "(path \<times> nat) list"
  projectVersion :: nat
  compilerOptions :: compiler_options   \<comment> \<open>\<open>this._compilerOptions\<close>\<close>
  trace :: "event list"

definition map_get :: "string_map \<Rightarrow> path \<Rightarrow> string option" where
  "map_get m p = (case map_of m p of None \<Rightarrow> None | Some v \<Rightarrow> v)"

text \<open>JavaScript truthiness of a possibly undefined string: \<open>!s\<close>.\<close>

definition falsy :: "string option \<Rightarrow> bool" where
  "falsy s = (case s of None \<Rightarrow> True | Some t \<Rightarrow> t = [])"

section \<open>The dependency graph builder\<close>

text \<open>\<open>TsCompiler._getFileContentFromCache\<close>.\<close>

definition getFileContentFromCache ::
  "extern \<Rightarrow> compiler_state \<Rightarrow> path \<Rightarrow> string option \<times> compiler_state" where
  "getFileContentFromCache api s filePath =
     (let normalizedFilePath = normalize api filePath;
          resolvedFileContent = map_get (fsStore s (runtimeCacheFS s)) normalizedFilePath
      in if falsy resolvedFileContent
         then (let c = readFile api normalizedFilePath
               in (c, s\<lparr>fsStore := (fsStore s)(runtimeCacheFS s :=
                          AList.update normalizedFilePath c (fsStore s (runtimeCacheFS s)))\<rparr>))
         else (resolvedFileContent, s))"

text \<open>
  \<open>TsCompiler._getImportedModulePaths\<close>. \<open>ts.preProcessFile\<close> throws a \<open>TypeError\<close> when the
  text is \<open>undefined\<close> (the content of a file that could not be read).
\<close>

definition getImportedModulePaths ::
  "extern \<Rightarrow> string option \<Rightarrow> path \<Rightarrow> error + path list" where
  "getImportedModulePaths api resolvedFileContent containingFile =
     (case resolvedFileContent of
        None \<Rightarrow> Inl JsTypeError
      | Some text \<Rightarrow>
          Inr (filter (\<lambda>resolveFileName. resolveFileName \<noteq> [])
                 (map (\<lambda>importedFile.
                         (case resolveModuleName api importedFile containingFile of
                            None \<Rightarrow> []
                          | Some rm \<Rightarrow>
                              if resolvedFileName rm \<noteq> [] \<and> \<not> isExternalLibraryImport rm
                              then resolvedFileName rm else []))
                      (preProcessFile api text))))"

text \<open>\<open>Array.from(new Set(xs))\<close>: the first occurrence of each element, in order.\<close>

definition array_from_set :: "'a list \<Rightarrow> 'a list" where
  "array_from_set xs = foldl (\<lambda>acc x. if x \<in> set acc then acc else acc @ [x]) [] xs"

text \<open>
  The \<open>forEach\<close> of \<open>getResolvedModules\<close>. \<open>Array.prototype.forEach\<close> fixes the range of
  indices before the first call of the callback: elements pushed during the iteration are
  not visited. The first argument is the list of elements still to visit (the array as it
  was when \<open>forEach\<close> began), the accumulator is the array itself.
\<close>

fun forEach_push ::
  "extern \<Rightarrow> path list \<Rightarrow> compiler_state \<Rightarrow> path list \<Rightarrow>
   (error + path list) \<times> compiler_state" where
  "forEach_push api [] s importedModulePaths = (Inr importedModulePaths, s)"
| "forEach_push api (importedModulePath # rest) s importedModulePaths =
     (case getFileContentFromCache api s importedModulePath of
        (resolvedFileContent, s') \<Rightarrow>
          (case getImportedModulePaths api resolvedFileContent importedModulePath of
             Inl e \<Rightarrow> (Inl e, s')
           | Inr modulePaths \<Rightarrow>
               forEach_push api rest s'
                 (importedModulePaths @
                    filter (\<lambda>modulePath. modulePath \<notin> set importedModulePaths) modulePaths)))"

text \<open>\<open>TsCompiler.getResolvedModules\<close>; \<open>argCacheFS\<close> is the address of the map passed in.\<close>

definition getResolvedModules ::
  "extern \<Rightarrow> compiler_state \<Rightarrow> string \<Rightarrow> path \<Rightarrow> nat \<Rightarrow>
   (error + path list) \<times> compiler_state" where
  "getResolvedModules api s fileContent fileName argCacheFS =
     (let s0 = (if fsStore s (ctorCacheFS s) = [] then s\<lparr>runtimeCacheFS := argCacheFS\<rparr> else s)
      in case getImportedModulePaths api (Some fileContent) fileName of
           Inl e \<Rightarrow> (Inl e, s0)
         | Inr direct \<Rightarrow>
             (let importedModulePaths = array_from_set direct
              in forEach_push api importedModulePaths s0 importedModulePaths))"

section \<open>The compilation session\<close>

definition log_event :: "event \<Rightarrow> compiler_state \<Rightarrow> compiler_state" where
  "log_event e s = s\<lparr>trace := trace s @ [e]\<rparr>"

definition initialCompilerOptions :: "compiler_state \<Rightarrow> compiler_options" where
  "initialCompilerOptions s = parsedTsConfig_options (configSet s)"

text \<open>\<open>this._languageService\<close> is created by the constructor exactly when the mode is not isolated.\<close>

definition hasLanguageService :: "compiler_state \<Rightarrow> bool" where
  "hasLanguageService s = (\<not> cs_isolatedModules (configSet s))"

text \<open>\<open>TsCompiler._isFileInCache\<close>.\<close>

definition isFileInCache :: "compiler_state \<Rightarrow> path \<Rightarrow> bool" where
  "isFileInCache s fileName =
     (map_of (fileContentCache s) fileName \<noteq> None \<and>
      map_of (fileVersionCache s) fileName \<noteq> None \<and>
      map_of (fileVersionCache s) fileName \<noteq> Some 0)"

text \<open>The \<open>??\<close> operator.\<close>

definition nullish :: "'a option \<Rightarrow> 'a option \<Rightarrow> 'a option" where
  "nullish a b = (case a of None \<Rightarrow> b | Some v \<Rightarrow> Some v)"

text \<open>\<open>getScriptSnapshot\<close> of the service host: its effect on the overlay.\<close>

definition getScriptSnapshot :: "extern \<Rightarrow> compiler_state \<Rightarrow> path \<Rightarrow> compiler_state" where
  "getScriptSnapshot api s fileName =
     (let normalizedFileName = normalize api fileName;
          hit = isFileInCache s normalizedFileName
      in if \<not> hit
         then (case nullish (map_get (fileContentCache s) normalizedFileName)
                      (nullish (map_get (fsStore s (runtimeCacheFS s)) normalizedFileName)
                         (readFile api normalizedFileName)) of
                 None \<Rightarrow> s
               | Some fileContent \<Rightarrow>
                   s\<lparr>fileContentCache :=
                        AList.update normalizedFileName (Some fileContent) (fileContentCache s),
                      fileVersionCache := AList.update normalizedFileName 1 (fileVersionCache s)\<rparr>)
         else s)"

text \<open>The service synchronises with its host: it fetches the snapshots it needs, in order.\<close>

definition sync :: "extern \<Rightarrow> path list \<Rightarrow> compiler_state \<Rightarrow> compiler_state" where
  "sync api ps s = foldl (getScriptSnapshot api) s ps"

definition hostView :: "compiler_state \<Rightarrow> host_view" where
  "hostView s = (fileVersionCache s, fileContentCache s, projectVersion s, compilerOptions s)"

definition getEmitOutput ::
  "extern \<Rightarrow> compiler_state \<Rightarrow> path \<Rightarrow> (error + emit_output) \<times> compiler_state" where
  "getEmitOutput api s fileName =
     (let s' = sync api (ls_reads api fileName) s
      in (ls_getEmitOutput api (hostView s') fileName, log_event (EmitRequested fileName) s'))"

definition getSemanticDiagnostics ::
  "extern \<Rightarrow> compiler_state \<Rightarrow> path \<Rightarrow> (error + diagnostic list) \<times> compiler_state" where
  "getSemanticDiagnostics api s fileName =
     (let s' = sync api (ls_reads api fileName) s
      in (ls_getSemanticDiagnostics api (hostView s') fileName,
          log_event (SemanticDiagnosticsRequested fileName) s'))"

definition getSyntacticDiagnostics ::
  "extern \<Rightarrow> compiler_state \<Rightarrow> path \<Rightarrow> (error + diagnostic list) \<times> compiler_state" where
  "getSyntacticDiagnostics api s fileName =
     (let s' = sync api (ls_reads api fileName) s
      in (ls_getSyntacticDiagnostics api (hostView s') fileName,
          log_event (SyntacticDiagnosticsRequested fileName) s'))"

text \<open>
  The spread of the semantic and the syntactic diagnostics of one file: the first request
  that throws ends it.
\<close>

definition bothDiagnostics ::
  "extern \<Rightarrow> compiler_state \<Rightarrow> path \<Rightarrow> (error + diagnostic list) \<times> compiler_state" where
  "bothDiagnostics api s fileName =
     (case getSemanticDiagnostics api s fileName of
        (Inl e, s1) \<Rightarrow> (Inl e, s1)
      | (Inr sem, s1) \<Rightarrow>
          (case getSyntacticDiagnostics api s1 fileName of
             (Inl e, s2) \<Rightarrow> (Inl e, s2)
           | (Inr syn, s2) \<Rightarrow> (Inr (sem @ syn), s2)))"

text \<open>\<open>TsCompiler.getDiagnostics\<close>.\<close>

definition getDiagnostics ::
  "extern \<Rightarrow> compiler_state \<Rightarrow> path \<Rightarrow> (error + diagnostic list) \<times> compiler_state" where
  "getDiagnostics api s fileName =
     (if shouldReportDiagnostics (configSet s) fileName
      then bothDiagnostics api s fileName
      else (Inr [], s))"

text \<open>\<open>TsCompiler._updateMemoryCache\<close>.\<close>

definition updateMemoryCache ::
  "compiler_state \<Rightarrow> string option \<Rightarrow> path \<Rightarrow> bool \<Rightarrow> compiler_state" where
  "updateMemoryCache s contents fileName isModuleKindTheSame =
     (let hit = isFileInCache s fileName;
          (s1, shouldIncrementProjectVersion) =
            (if \<not> hit
             then (s\<lparr>fileVersionCache := AList.update fileName 1 (fileVersionCache s)\<rparr>, True)
             else
               (let prevVersion = the (map_of (fileVersionCache s) fileName);
                    previousContents = map_get (fileContentCache s) fileName;
                    (s2, inc) =
                      (if previousContents \<noteq> contents
                       then (s\<lparr>fileVersionCache :=
                                  AList.update fileName (prevVersion + 1) (fileVersionCache s),
                                fileContentCache :=
                                  AList.update fileName contents (fileContentCache s)\<rparr>, True)
                       else (s, False))
                in if fileName \<notin> set (parsedTsConfig_fileNames (configSet s)) \<or> \<not> isModuleKindTheSame
                   then (s2, True) else (s2, inc)))
      in if shouldIncrementProjectVersion
         then s1\<lparr>projectVersion := projectVersion s1 + 1\<rparr> else s1)"

text \<open>\<open>TsCompiler.fixupCompilerOptionsForModuleKind\<close>.\<close>

definition fixupCompilerOptionsForModuleKind ::
  "extern \<Rightarrow> compiler_options \<Rightarrow> bool \<Rightarrow> compiler_options" where
  "fixupCompilerOptionsForModuleKind api opts isEsm =
     (let moduleResolution = moduleResolutionNode10 api
      in if \<not> isEsm
         then opts\<lparr>co_module := Some CommonJS,
                   co_moduleResolution := Some moduleResolution,
                   co_customConditions := None\<rparr>
         else
           (let moduleKind = (case co_module opts of None \<Rightarrow> ESNext | Some m \<Rightarrow> m);
                modern = isModernNodeModuleKind api (Some moduleKind)
            in opts\<lparr>co_module := Some (if modern then ESNext else moduleKind),
                     co_esModuleInterop := (if modern then Some True else co_esModuleInterop opts),
                     co_moduleResolution := Some moduleResolution,
                     co_customConditions := None\<rparr>))"

text \<open>\<open>DepGraphInfo\<close> and \<open>TsJestCompileOptions\<close>.\<close>

record dep_graph_info =
  dg_fileContent :: string
  resolvedModuleNames :: "path list"

type_synonym dep_graphs = "(path \<times> dep_graph_info) list"

record compile_options =
  depGraphs :: dep_graphs
  supportsStaticESM :: bool
  watchMode :: bool

text \<open>
  The watch-mode loop of \<open>getCompiledOutput\<close> over \<open>options.depGraphs.entries()\<close>. It stops
  at the first error that the service or the reporting policy throws.
\<close>

fun reTypeCheck ::
  "extern \<Rightarrow> path \<Rightarrow> dep_graphs \<Rightarrow> compiler_state \<Rightarrow> error option \<times> compiler_state" where
  "reTypeCheck api fileName [] s = (None, s)"
| "reTypeCheck api fileName ((fileToReTypeCheck, info) # rest) s =
     (let normalizedModuleNames = map (normalize api) (resolvedModuleNames info)
      in if fileName \<in> set normalizedModuleNames \<and>
            shouldReportDiagnostics (configSet s) fileToReTypeCheck
         then
           (case getFileContentFromCache api s fileToReTypeCheck of
              (contents, s1) \<Rightarrow>
                (case bothDiagnostics api (updateMemoryCache s1 contents fileToReTypeCheck True)
                        fileToReTypeCheck of
                   (Inl e, s2) \<Rightarrow> (Some e, s2)
                 | (Inr importedModulesDiagnostics, s2) \<Rightarrow>
                     (let s3 = log_event (DiagnosticsRaised importedModulesDiagnostics fileName) s2
                      in case raiseDiagnostics (configSet s) importedModulesDiagnostics fileName of
                           Some e \<Rightarrow> (Some e, s3)
                         | None \<Rightarrow> reTypeCheck api fileName rest s3)))
         else reTypeCheck api fileName rest s)"

text \<open>\<open>TsCompiler._transpileOutput\<close> (the custom transformers are left to the transpiler).\<close>

definition transpileOutput ::
  "extern \<Rightarrow> compiler_state \<Rightarrow> string \<Rightarrow> path \<Rightarrow> transpile_output \<times> compiler_state" where
  "transpileOutput api s fileContent fileName =
     (if \<not> isModernNodeModuleKind api (co_module (initialCompilerOptions s))
      then (transpileModule api fileContent fileName (compilerOptions s)
              (shouldReportDiagnostics (configSet s) fileName),
            log_event (Transpiled fileName (co_module (compilerOptions s))) s)
      else (tsTranspileModule api fileContent fileName (initialCompilerOptions s)
              (if fileName \<noteq> [] then shouldReportDiagnostics (configSet s) fileName else False),
            log_event (Transpiled fileName (co_module (initialCompilerOptions s))) s))"

text \<open>The end of the full-service branch of \<open>getCompiledOutput\<close>, from the test of \<open>emitSkipped\<close> on.\<close>

definition finishEmit ::
  "extern \<Rightarrow> compiler_state \<Rightarrow> string \<Rightarrow> path \<Rightarrow> emit_output \<Rightarrow> diagnostic list \<Rightarrow>
   (error + compiled_output) \<times> compiler_state" where
  "finishEmit api s fileContent fileName output ds =
     (if emitSkipped output
      then (if TS_TSX_REGEX api fileName
            then (Inl (CannotProcessFile fileName), s)
            else (Inr \<lparr>code = fileContent, diagnostics = None\<rparr>,
                  log_event (LogWarn (CannotProcessFileReturnOriginal fileName)) s))
      else if outputFiles output = []
      then (Inl (UnableToRequireDefinitionFile (basename api fileName)), s)
      else if co_sourceMap (compilerOptions s)
      then (case outputFiles output of
              f0 # f1 # _ \<Rightarrow>
                (Inr \<lparr>code = updateOutput api f1 fileName (Some f0), diagnostics = Some ds\<rparr>, s)
            | _ \<Rightarrow> (Inl JsTypeError, s))
      else (Inr \<lparr>code = updateOutput api (hd (outputFiles output)) fileName None,
                 diagnostics = Some ds\<rparr>, s))"

text \<open>
  The reporting stage of the full-service branch of \<open>getCompiledOutput\<close>: the diagnostics
  of the file are fetched and, outside ESM mode and when there are any, handed to the
  reporting policy; in watch mode the dependents are then checked. The stage ends with the
  diagnostics of the file or with the error that was thrown.
\<close>

definition reportDiagnostics ::
  "extern \<Rightarrow> compiler_state \<Rightarrow> path \<Rightarrow> compile_options \<Rightarrow> bool \<Rightarrow>
   (error + diagnostic list) \<times> compiler_state" where
  "reportDiagnostics api s2 fileName options isEsmMode =
     (case getDiagnostics api s2 fileName of
        (Inl e, s3) \<Rightarrow> (Inl e, s3)
      | (Inr ds, s3) \<Rightarrow>
          (if \<not> isEsmMode \<and> ds \<noteq> []
           then
             (let s4 = log_event (DiagnosticsRaised ds fileName) s3
              in case raiseDiagnostics (configSet s2) ds fileName of
                   Some e \<Rightarrow> (Inl e, s4)
                 | None \<Rightarrow>
                     (if watchMode options
                      then (case reTypeCheck api fileName (depGraphs options) s4 of
                              (Some e, s5) \<Rightarrow> (Inl e, s5)
                            | (None, s5) \<Rightarrow> (Inr ds, s5))
                      else (Inr ds, s4)))
           else (Inr ds, s3)))"

text \<open>
  The full-service branch of \<open>getCompiledOutput\<close> from the request to the service on: the
  emit output is fetched, the reporting stage runs, and the emit output is turned into the
  result.
\<close>

definition emitAndReport ::
  "extern \<Rightarrow> compiler_state \<Rightarrow> string \<Rightarrow> path \<Rightarrow> compile_options \<Rightarrow> bool \<Rightarrow>
   (error + compiled_output) \<times> compiler_state" where
  "emitAndReport api s1 fileContent fileName options isEsmMode =
     (case getEmitOutput api s1 fileName of
        (Inl e, s2) \<Rightarrow> (Inl e, s2)
      | (Inr output, s2) \<Rightarrow>
          (case reportDiagnostics api s2 fileName options isEsmMode of
             (Inl e, s3) \<Rightarrow> (Inl e, s3)
           | (Inr ds, s3) \<Rightarrow> finishEmit api s3 fileContent fileName output ds))"

text \<open>The full-service branch of \<open>getCompiledOutput\<close>, after \<open>_compilerOptions\<close> is set.\<close>

definition compileWithService ::
  "extern \<Rightarrow> compiler_state \<Rightarrow> string \<Rightarrow> path \<Rightarrow> compile_options \<Rightarrow> bool \<Rightarrow>
   (error + compiled_output) \<times> compiler_state" where
  "compileWithService api s fileContent fileName options isEsmMode =
     (if JS_JSX_REGEX api fileName \<and> \<not> co_allowJs (compilerOptions s)
      then (Inr \<lparr>code = fileContent, diagnostics = None\<rparr>,
            log_event (LogWarn (GotJsFileButAllowJsFalse fileName)) s)
      else
        (let moduleKind = co_module (initialCompilerOptions s);
             currentModuleKind = co_module (compilerOptions s)
         in emitAndReport api
              (updateMemoryCache s (Some fileContent) fileName (currentModuleKind = moduleKind))
              fileContent fileName options isEsmMode))"

text \<open>The isolated branch of \<open>getCompiledOutput\<close>.\<close>

definition compileIsolated ::
  "extern \<Rightarrow> compiler_state \<Rightarrow> string \<Rightarrow> path \<Rightarrow> bool \<Rightarrow>
   (error + compiled_output) \<times> compiler_state" where
  "compileIsolated api s fileContent fileName isEsmMode =
     (let s1 = (if isEsmMode \<and> co_module (initialCompilerOptions s) = Some CommonJS
                then log_event (LogError InvalidModuleKindForEsm) s else s)
      in case transpileOutput api s1 fileContent fileName of
           (result, s2) \<Rightarrow>
             (let ok = (Inr \<lparr>code = updateOutput api (outputText result) fileName
                                      (sourceMapText result),
                             diagnostics = None\<rparr>)
              in case to_diagnostics result of
                   Some ds \<Rightarrow>
                     (if shouldReportDiagnostics (configSet s) fileName
                      then (case raiseDiagnostics (configSet s) ds fileName of
                              Some e \<Rightarrow> (Inl e, log_event (DiagnosticsRaised ds fileName) s2)
                            | None \<Rightarrow> (ok, log_event (DiagnosticsRaised ds fileName) s2))
                      else (ok, s2))
                 | None \<Rightarrow> (ok, s2)))"

text \<open>
  The beginning of \<open>getCompiledOutput\<close>: \<open>_compilerOptions\<close> is set for the module system
  of the request, with a warning for a modern node module kind.
\<close>

definition isEsmMode :: "compiler_state \<Rightarrow> compile_options \<Rightarrow> bool" where
  "isEsmMode s options = (cs_useESM (configSet s) \<and> supportsStaticESM options)"

definition enterCompile :: "extern \<Rightarrow> compiler_state \<Rightarrow> compile_options \<Rightarrow> compiler_state" where
  "enterCompile api s options =
     (let s0 = s\<lparr>compilerOptions :=
                   fixupCompilerOptionsForModuleKind api (initialCompilerOptions s)
                     (isEsmMode s options)\<rparr>
      in if \<not> co_isolatedModules (initialCompilerOptions s) \<and>
            isModernNodeModuleKind api (co_module (initialCompilerOptions s))
         then log_event (LogWarn UsingModernNodeResolution) s0 else s0)"

text \<open>\<open>TsCompiler.getCompiledOutput\<close>.\<close>

definition getCompiledOutput ::
  "extern \<Rightarrow> compiler_state \<Rightarrow> string \<Rightarrow> path \<Rightarrow> compile_options \<Rightarrow>
   (error + compiled_output) \<times> compiler_state" where
  "getCompiledOutput api s fileContent fileName options =
     (if hasLanguageService s
      then compileWithService api (enterCompile api s options) fileContent fileName options
             (isEsmMode s options)
      else compileIsolated api (enterCompile api s options) fileContent fileName
             (isEsmMode s options))"

text \<open>
  Observations of a call of \<open>getCompiledOutput\<close> in full-service mode: the state in which
  the service is asked (after \<open>_updateMemoryCache\<close>), what the request for the emit output
  returns, what the reporting stage returns, and the log entries and service calls made
  between two states.
\<close>

definition serviceState ::
  "extern \<Rightarrow> compiler_state \<Rightarrow> string \<Rightarrow> path \<Rightarrow> compile_options \<Rightarrow> compiler_state" where
  "serviceState api s fileContent fileName options =
     (let s1 = enterCompile api s options
      in updateMemoryCache s1 (Some fileContent) fileName
           (co_module (compilerOptions s1) = co_module (initialCompilerOptions s1)))"

definition serviceEmit ::
  "extern \<Rightarrow> compiler_state \<Rightarrow> string \<Rightarrow> path \<Rightarrow> compile_options \<Rightarrow> error + emit_output" where
  "serviceEmit api s fileContent fileName options =
     fst (getEmitOutput api (serviceState api s fileContent fileName options) fileName)"

definition reportingOutcome ::
  "extern \<Rightarrow> compiler_state \<Rightarrow> string \<Rightarrow> path \<Rightarrow> compile_options \<Rightarrow>
   error + diagnostic list" where
  "reportingOutcome api s fileContent fileName options =
     fst (reportDiagnostics api
            (snd (getEmitOutput api (serviceState api s fileContent fileName options) fileName))
            fileName options (isEsmMode s options))"

definition eventsDuring :: "compiler_state \<Rightarrow> compiler_state \<Rightarrow> event list" where
  "eventsDuring s s' = drop (length (trace s)) (trace s')"

text \<open>
  The constructor of \<open>TsCompiler\<close> with \<open>_createLanguageService\<close>: in full-service mode the
  files of the project that are typed sources and not test files get version 0, and the
  service builds its program.
\<close>

definition newTsCompiler :: "extern \<Rightarrow> config_set \<Rightarrow> (nat \<Rightarrow> string_map) \<Rightarrow> nat \<Rightarrow> compiler_state" where
  "newTsCompiler api cs store cacheFS =
     (let s = \<lparr>configSet = cs, fsStore = store, ctorCacheFS = cacheFS, runtimeCacheFS = cacheFS,
                fileContentCache = [], fileVersionCache = [], projectVersion = 1,
                compilerOptions = parsedTsConfig_options cs, trace = []\<rparr>
      in if \<not> cs_isolatedModules cs
         then sync api (ls_program_reads api)
                (s\<lparr>fileVersionCache :=
                      foldl (\<lambda>m fileName. AList.update fileName 0 m) []
                        (filter (\<lambda>fileName. TS_TSX_REGEX api fileName \<and> \<not> isTestFile cs fileName)
                           (parsedTsConfig_fileNames cs))\<rparr>)
         else s)"

section \<open>The transformer and the session registry\<close>

text \<open>\<open>TsJestTransformOptions\<close>: the fields the code reads; \<open>cacheFS\<close> is an address.\<close>

record transform_options =
  config :: jest_config
  cacheFS :: nat
  to_supportsStaticESM :: bool
  instrument :: "bool option"
  transformerConfig_useESM :: bool

text \<open>
  \<open>CachedConfigSet\<close>. The \<open>JsonableValue\<close> is the identity of the live object with its
  serialized form; the compiler and the dependency graphs are objects, held by address.
\<close>

record cached_config_set =
  ccs_configSet :: config_set
  jestConfig_value :: nat
  jestConfig_serialized :: string
  transformerCfgStr :: string
  ccs_compiler :: nat
  ccs_depGraphs :: nat
  ccs_watchMode :: bool

text \<open>
  The static registry, the objects it refers to (compilers, dependency-graph maps, the maps
  of the run-time cache), and the fields of the transformer instance at work (\<open>this\<close>).
\<close>

record tstate =
  cachedConfigSets :: "cached_config_set list"
  compilerHeap :: "nat \<Rightarrow> compiler_state"
  nextCompiler :: nat
  depGraphHeap :: "nat \<Rightarrow> dep_graphs"
  nextDepGraphs :: nat
  mapHeap :: "nat \<Rightarrow> string_map"
  this_compiler :: "nat option"
  this_transformCfgStr :: "string option"
  this_depGraphs :: nat
  this_watchMode :: bool
  transformerOptions :: "string option"
  t_trace :: "event list"

definition t_log :: "event \<Rightarrow> tstate \<Rightarrow> tstate" where
  "t_log e st = st\<lparr>t_trace := t_trace st @ [e]\<rparr>"

text \<open>
  The constructor of \<open>TsJestTransformer\<close>: the instance fields are initialised, the
  initialiser of \<open>_depGraphs\<close> allocates a new map, the static registry stays.
\<close>

definition newTransformer :: "string option \<Rightarrow> tstate \<Rightarrow> tstate" where
  "newTransformer topts st =
     st\<lparr>depGraphHeap := (depGraphHeap st)(nextDepGraphs st := []),
        nextDepGraphs := nextDepGraphs st + 1,
        this_compiler := None,
        this_transformCfgStr := None,
        this_depGraphs := nextDepGraphs st,
        this_watchMode := False,
        transformerOptions := topts\<rparr>"

definition emptyWorld :: "config_set \<Rightarrow> tstate" where
  "emptyWorld cs0 =
     \<lparr>cachedConfigSets = [],
      compilerHeap = (\<lambda>_. \<lparr>configSet = cs0, fsStore = (\<lambda>_. []), ctorCacheFS = 0,
                            runtimeCacheFS = 0, fileContentCache = [], fileVersionCache = [],
                            projectVersion = 1, compilerOptions = parsedTsConfig_options cs0,
                            trace = []\<rparr>),
      nextCompiler = 0,
      depGraphHeap = (\<lambda>_. []),
      nextDepGraphs = 0,
      mapHeap = (\<lambda>_. []),
      this_compiler = None,
      this_transformCfgStr = None,
      this_depGraphs = 0,
      this_watchMode = False,
      transformerOptions = None,
      t_trace = []\<rparr>"

text \<open>A method of a compiler object runs on the shared maps and leaves its writes there.\<close>

definition withCompiler ::
  "nat \<Rightarrow> (compiler_state \<Rightarrow> 'a \<times> compiler_state) \<Rightarrow> tstate \<Rightarrow> 'a \<times> tstate" where
  "withCompiler a f st =
     (case f ((compilerHeap st a)\<lparr>fsStore := mapHeap st\<rparr>) of
        (r, c') \<Rightarrow> (r, st\<lparr>compilerHeap := (compilerHeap st)(a := c'), mapHeap := fsStore c'\<rparr>))"

text \<open>\<open>Array.prototype.find\<close>, as the index of the first match.\<close>

fun findIndex :: "('a \<Rightarrow> bool) \<Rightarrow> 'a list \<Rightarrow> nat option" where
  "findIndex P [] = None"
| "findIndex P (x # xs) = (if P x then Some 0 else map_option Suc (findIndex P xs))"

text \<open>The hit branches of \<open>_configsFor\<close>: the instance takes the fields of the record.\<close>

definition adopt :: "cached_config_set \<Rightarrow> tstate \<Rightarrow> tstate" where
  "adopt ccs st =
     st\<lparr>this_transformCfgStr := Some (transformerCfgStr ccs),
        this_compiler := Some (ccs_compiler ccs),
        this_depGraphs := ccs_depGraphs ccs,
        this_watchMode := ccs_watchMode ccs\<rparr>"

text \<open>The miss branch of \<open>_configsFor\<close>: a new record is created and pushed.\<close>

definition createRecord :: "extern \<Rightarrow> tstate \<Rightarrow> transform_options \<Rightarrow> config_set \<times> tstate" where
  "createRecord api st transformOptions =
     (let cfg = config transformOptions;
          st1 = t_log (LogInfo NoMatchingConfigSet) st;
          st2 = (if \<not> falsy (globals_ts_jest cfg)
                 then t_log (LogWarn GlobalsTsJestConfigOption) st1 else st1);
          migratedConfig =
            (case transformerOptions st of
               Some topts \<Rightarrow>
                 cfg\<lparr>globals_ts_jest :=
                       Some (mergeTransformerOptions api (globals_ts_jest cfg) topts)\<rparr>
             | None \<Rightarrow> cfg);
          cs = createConfigSet api migratedConfig;
          jest = migratedConfig\<lparr>cacheDirectory := None\<rparr>;
          cfgStr = stringify_config api jest @ cs_cacheSuffix cs;
          a = nextCompiler st2;
          st3 = st2\<lparr>this_transformCfgStr := Some cfgStr,
                    compilerHeap := (compilerHeap st2)
                      (a := newTsCompiler api cs (mapHeap st2) (cacheFS transformOptions)),
                    nextCompiler := a + 1,
                    this_compiler := Some a,
                    this_watchMode := argv_watch api\<rparr>
      in (cs, st3\<lparr>cachedConfigSets := cachedConfigSets st3 @
                     [\<lparr>ccs_configSet = cs,
                       jestConfig_value = cfg_ref cfg,
                       jestConfig_serialized = stringify_config api cfg,
                       transformerCfgStr = cfgStr,
                       ccs_compiler = a,
                       ccs_depGraphs = this_depGraphs st3,
                       ccs_watchMode = argv_watch api\<rparr>]\<rparr>))"

text \<open>\<open>TsJestTransformer._configsFor\<close>.\<close>

definition configsFor :: "extern \<Rightarrow> tstate \<Rightarrow> transform_options \<Rightarrow> config_set \<times> tstate" where
  "configsFor api st transformOptions =
     (let cfg = config transformOptions
      in case findIndex (\<lambda>cs. jestConfig_value cs = cfg_ref cfg) (cachedConfigSets st) of
           Some i \<Rightarrow>
             (let ccs = cachedConfigSets st ! i in (ccs_configSet ccs, adopt ccs st))
         | None \<Rightarrow>
             (let serializedJestCfg = stringify_config api cfg
              in case findIndex (\<lambda>cs. jestConfig_serialized cs = serializedJestCfg)
                        (cachedConfigSets st) of
                   Some i \<Rightarrow>
                     (let serializedCcs = (cachedConfigSets st ! i)\<lparr>jestConfig_value := cfg_ref cfg\<rparr>
                      in (ccs_configSet serializedCcs,
                          adopt serializedCcs
                            (st\<lparr>cachedConfigSets := (cachedConfigSets st)[i := serializedCcs]\<rparr>)))
                 | None \<Rightarrow> createRecord api st transformOptions))"

text \<open>\<open>String.prototype.split\<close> at a one-character separator.\<close>

fun split_on :: "char \<Rightarrow> string \<Rightarrow> string list" where
  "split_on c [] = [Nil]"
| "split_on c (x # xs) =
     (if x = c then [] # split_on c xs
      else (case split_on c xs of [] \<Rightarrow> [x # Nil] | y # ys \<Rightarrow> (x # y) # ys))"

text \<open>\<open>isNodeModule\<close>.\<close>

definition isNodeModule :: "extern \<Rightarrow> path \<Rightarrow> bool" where
  "isNodeModule api filePath =
     (''node_modules'' \<in> set (split_on (path_sep api) (normalize api filePath)))"

text \<open>\<open>TsJestTransformer.processWithTs\<close>.\<close>

definition processWithTs ::
  "extern \<Rightarrow> tstate \<Rightarrow> string \<Rightarrow> path \<Rightarrow> transform_options \<Rightarrow>
   (error + compiled_output) \<times> tstate" where
  "processWithTs api st sourceText sourcePath transformOptions =
     (case configsFor api st transformOptions of
        (configs, st1) \<Rightarrow>
          (let shouldStringify = shouldStringifyContent configs sourcePath;
               babelJest = (if shouldStringify then None else babelJestTransformer configs);
               isDefinitionFile = suffix (DECLARATION_TYPE_EXT api) sourcePath;
               isJsFile = JS_JSX_REGEX api sourcePath;
               isTsFile = (\<not> isDefinitionFile \<and> TS_TSX_REGEX api sourcePath)
           in if shouldStringify
              then (Inr \<lparr>code = ''module.exports='' @ stringify api sourceText,
                         diagnostics = None\<rparr>, st1)
              else if isDefinitionFile
              then (Inr \<lparr>code = [], diagnostics = None\<rparr>, st1)
              else if isJsFile \<or> isTsFile
              then
                (if isJsFile \<and> isNodeModule api sourcePath
                 then
                   (let moduleKind =
                          (if to_supportsStaticESM transformOptions \<and>
                              transformerConfig_useESM transformOptions
                           then ESNext else CommonJS);
                        transpiledResult =
                          transpileModule api sourceText sourcePath
                            ((parsedTsConfig_options configs)\<lparr>co_module := Some moduleKind\<rparr>) False
                    in (Inr \<lparr>code = updateOutput api (outputText transpiledResult) sourcePath
                                       (sourceMapText transpiledResult),
                              diagnostics = None\<rparr>,
                        t_log (Transpiled sourcePath (Some moduleKind)) st1))
                 else
                   withCompiler (the (this_compiler st1))
                     (\<lambda>c. getCompiledOutput api c sourceText sourcePath
                             \<lparr>depGraphs = depGraphHeap st1 (this_depGraphs st1),
                              supportsStaticESM = to_supportsStaticESM transformOptions,
                              watchMode = this_watchMode st1\<rparr>)
                     st1)
              else
                (let message = (case babelJest of
                                  Some _ \<Rightarrow> GotUnknownFileTypeWithBabel sourcePath
                                | None \<Rightarrow> GotUnknownFileTypeWithoutBabel sourcePath)
                 in (Inr \<lparr>code = sourceText, diagnostics = None\<rparr>, t_log (LogWarn message) st1))))"

text \<open>
  \<open>TsJestTransformer.runTsJestHook\<close>. A transformed source is its code; the hook returns an
  error, nothing, or a new result.
\<close>

definition runTsJestHook ::
  "extern \<Rightarrow> tstate \<Rightarrow> path \<Rightarrow> string \<Rightarrow> transform_options \<Rightarrow> string \<Rightarrow>
   (error + string) \<times> tstate" where
  "runTsJestHook api st sourcePath sourceText transformOptions compiledOutput =
     (if falsy (env_TS_JEST_HOOKS api)
      then (Inr compiledOutput, st)
      else
        (case configsFor api st transformOptions of
           (configs, st1) \<Rightarrow>
             (case loadHooks api (cs_cwd configs) (the (env_TS_JEST_HOOKS api)) of
                None \<Rightarrow> (Inr compiledOutput, st1)
              | Some afterProcess \<Rightarrow>
                  (case afterProcess sourceText sourcePath compiledOutput of
                     Inl e \<Rightarrow> (Inl e, st1)
                   | Inr None \<Rightarrow> (Inr compiledOutput, st1)
                   | Inr (Some newResult) \<Rightarrow> (Inr newResult, st1)))))"

text \<open>
  What \<open>process\<close> and \<open>processAsync\<close> do after the compilation: the secondary transformer,
  when there is one, then the hook. \<open>run\<close> is the contract of the secondary transformer
  that the entry point uses.
\<close>

definition postProcess ::
  "extern \<Rightarrow> (babel_jest \<Rightarrow> string \<Rightarrow> path \<Rightarrow> error + string) \<Rightarrow> babel_jest option \<Rightarrow>
   tstate \<Rightarrow> string \<Rightarrow> path \<Rightarrow> transform_options \<Rightarrow> string \<Rightarrow> (error + string) \<times> tstate" where
  "postProcess api run babelJest st sourceText sourcePath transformOptions result =
     (case babelJest of
        None \<Rightarrow> runTsJestHook api st sourcePath sourceText transformOptions result
      | Some b \<Rightarrow>
          (case run b result sourcePath of
             Inl e \<Rightarrow> (Inl e, st)
           | Inr result' \<Rightarrow>
               runTsJestHook api st sourcePath sourceText transformOptions result'))"

text \<open>\<open>TsJestTransformer.process\<close>.\<close>

definition process ::
  "extern \<Rightarrow> tstate \<Rightarrow> string \<Rightarrow> path \<Rightarrow> transform_options \<Rightarrow> (error + string) \<times> tstate" where
  "process api st sourceText sourcePath transformOptions =
     (case configsFor api st transformOptions of
        (configs, st1) \<Rightarrow>
          (let shouldStringify = shouldStringifyContent configs sourcePath;
               babelJest = (if shouldStringify then None else babelJestTransformer configs)
           in case processWithTs api st1 sourceText sourcePath transformOptions of
                (Inl e, st2) \<Rightarrow> (Inl e, st2)
              | (Inr r, st2) \<Rightarrow>
                  postProcess api bj_process babelJest st2 sourceText sourcePath
                    transformOptions (code r)))"

text \<open>\<open>d?.length\<close> of an optional array.\<close>

definition nonEmpty :: "'a list option \<Rightarrow> bool" where
  "nonEmpty d = (case d of None \<Rightarrow> False | Some ds \<Rightarrow> ds \<noteq> [])"

text \<open>\<open>TsJestTransformer.processAsync\<close>; a rejected promise is an error.\<close>

definition processAsync ::
  "extern \<Rightarrow> tstate \<Rightarrow> string \<Rightarrow> path \<Rightarrow> transform_options \<Rightarrow> (error + string) \<times> tstate" where
  "processAsync api st sourceText sourcePath transformOptions =
     (case configsFor api st transformOptions of
        (configs, st1) \<Rightarrow>
          (let shouldStringify = shouldStringifyContent configs sourcePath;
               babelJest = (if shouldStringify then None else babelJestTransformer configs)
           in case processWithTs api st1 sourceText sourcePath transformOptions of
                (Inl e, st2) \<Rightarrow> (Inl e, st2)
              | (Inr processWithTsResult, st2) \<Rightarrow>
                  (if nonEmpty (diagnostics processWithTsResult)
                   then (Inl (createTsError configs (the (diagnostics processWithTsResult))), st2)
                   else postProcess api bj_processAsync babelJest st2 sourceText sourcePath
                          transformOptions (code processWithTsResult))))"

section \<open>The cache key composer\<close>

definition CACHE_KEY_EL_SEPARATOR :: string where
  "CACHE_KEY_EL_SEPARATOR = [CHR 0x00]"

definition onOff :: "bool \<Rightarrow> string" where
  "onOff b = (if b then ''on'' else ''off'')"

text \<open>The elements \<open>getCacheKey\<close> starts with.\<close>

definition baseElements ::
  "string \<Rightarrow> config_set \<Rightarrow> string \<Rightarrow> path \<Rightarrow> transform_options \<Rightarrow> string list" where
  "baseElements cfgStr configs fileContent filePath transformOptions =
     [cfgStr, CACHE_KEY_EL_SEPARATOR,
      cs_rootDir configs, CACHE_KEY_EL_SEPARATOR,
      ''instrument:'' @ onOff (case instrument transformOptions of None \<Rightarrow> False | Some b \<Rightarrow> b),
      CACHE_KEY_EL_SEPARATOR,
      ''supportsStaticESM:'' @ onOff (to_supportsStaticESM transformOptions),
      CACHE_KEY_EL_SEPARATOR,
      fileContent, CACHE_KEY_EL_SEPARATOR,
      filePath]"

text \<open>\<open>existsSync\<close>, and \<open>statSync(p).mtimeMs.toString()\<close>, which throws for a missing file.\<close>

definition existsSync :: "extern \<Rightarrow> path \<Rightarrow> bool" where
  "existsSync api p = (mtimeMs api p \<noteq> None)"

definition statSync_mtimeMs :: "extern \<Rightarrow> path \<Rightarrow> error + string" where
  "statSync_mtimeMs api p = (case mtimeMs api p of None \<Rightarrow> Inl (ENOENT p) | Some t \<Rightarrow> Inr t)"

text \<open>
  The \<open>forEach\<close> over the resolved module names: an error of \<open>statSync\<close> ends the loop and
  the call.
\<close>

fun pushMtimes :: "extern \<Rightarrow> path list \<Rightarrow> string list \<Rightarrow> error + string list" where
  "pushMtimes api [] elements = Inr elements"
| "pushMtimes api (moduleName # rest) elements =
     (case statSync_mtimeMs api moduleName of
        Inl e \<Rightarrow> Inl e
      | Inr mtime \<Rightarrow>
          pushMtimes api rest
            (elements @ [CACHE_KEY_EL_SEPARATOR, moduleName, CACHE_KEY_EL_SEPARATOR, mtime]))"

text \<open>The \<open>else\<close> branch: the names are resolved by the compiler and stored for the next call.\<close>

definition resolveAndStore ::
  "extern \<Rightarrow> tstate \<Rightarrow> string \<Rightarrow> path \<Rightarrow> transform_options \<Rightarrow>
   (error + path list) \<times> tstate" where
  "resolveAndStore api st fileContent filePath transformOptions =
     (case withCompiler (the (this_compiler st))
             (\<lambda>c. getResolvedModules api c fileContent filePath (cacheFS transformOptions)) st of
        (Inl e, st1) \<Rightarrow> (Inl e, st1)
      | (Inr names, st1) \<Rightarrow>
          (Inr names,
           st1\<lparr>depGraphHeap := (depGraphHeap st1)
                 (this_depGraphs st1 :=
                    AList.update filePath
                      \<lparr>dg_fileContent = fileContent, resolvedModuleNames = names\<rparr>
                      (depGraphHeap st1 (this_depGraphs st1)))\<rparr>))"

text \<open>
  The resolved module names \<open>getCacheKey\<close> uses: the stored ones that still exist when the
  stored content is the content at hand, the freshly resolved ones otherwise.
\<close>

definition resolvedModuleNamesFor ::
  "extern \<Rightarrow> tstate \<Rightarrow> string \<Rightarrow> path \<Rightarrow> transform_options \<Rightarrow>
   (error + path list) \<times> tstate" where
  "resolvedModuleNamesFor api st fileContent filePath transformOptions =
     (case map_of (depGraphHeap st (this_depGraphs st)) filePath of
        Some info \<Rightarrow>
          if dg_fileContent info = fileContent
          then (Inr (filter (existsSync api) (resolvedModuleNames info)), st)
          else resolveAndStore api st fileContent filePath transformOptions
      | None \<Rightarrow> resolveAndStore api st fileContent filePath transformOptions)"

text \<open>The sequence of elements \<open>getCacheKey\<close> hands to \<open>sha1\<close>.\<close>

definition cacheKeyElements ::
  "extern \<Rightarrow> tstate \<Rightarrow> string \<Rightarrow> path \<Rightarrow> transform_options \<Rightarrow> (error + string list) \<times> tstate" where
  "cacheKeyElements api st fileContent filePath transformOptions =
     (case configsFor api st transformOptions of
        (configs, st1) \<Rightarrow>
          (let constructingCacheKeyElements =
                 baseElements (the (this_transformCfgStr st1)) configs fileContent filePath
                   transformOptions
           in if \<not> cs_isolatedModules configs \<and> \<not> falsy (cs_tsCacheDir configs)
              then (case resolvedModuleNamesFor api st1 fileContent filePath transformOptions of
                      (Inl e, st2) \<Rightarrow> (Inl e, st2)
                    | (Inr names, st2) \<Rightarrow>
                        (pushMtimes api names constructingCacheKeyElements, st2))
              else (Inr constructingCacheKeyElements, st1)))"

text \<open>\<open>TsJestTransformer.getCacheKey\<close>.\<close>

definition getCacheKey ::
  "extern \<Rightarrow> tstate \<Rightarrow> string \<Rightarrow> path \<Rightarrow> transform_options \<Rightarrow> (error + string) \<times> tstate" where
  "getCacheKey api st fileContent filePath transformOptions =
     (case cacheKeyElements api st fileContent filePath transformOptions of
        (Inl e, st') \<Rightarrow> (Inl e, st')
      | (Inr elements, st') \<Rightarrow> (Inr (sha1 api elements), st'))"

section \<open>Auxiliary notions\<close>

text \<open>
  A file is settled when fetching its snapshot does not change the overlay: it is in the
  cache, or no content can be found for it.
\<close>

definition settledP :: "extern \<Rightarrow> compiler_state \<Rightarrow> path \<Rightarrow> bool" where
  "settledP api s n =
     (isFileInCache s n \<or>
      nullish (map_get (fileContentCache s) n)
        (nullish (map_get (fsStore s (runtimeCacheFS s)) n) (readFile api n)) = None)"

text \<open>The record of the configuration is found by reference and the instance holds its fields.\<close>
definition sessionCurrent :: "tstate \<Rightarrow> transform_options \<Rightarrow> config_set \<Rightarrow> bool" where
  "sessionCurrent st transformOptions cs =
     (case findIndex (\<lambda>r. jestConfig_value r = cfg_ref (config transformOptions))
             (cachedConfigSets st) of
        None \<Rightarrow> False
      | Some i \<Rightarrow>
          (let r = cachedConfigSets st ! i
           in ccs_configSet r = cs \<and>
              this_transformCfgStr st = Some (transformerCfgStr r) \<and>
              this_compiler st = Some (ccs_compiler r) \<and>
              this_depGraphs st = ccs_depGraphs r \<and>
              this_watchMode st = ccs_watchMode r))"

text \<open>The four elements that \<open>getCacheKey\<close> appends for a resolved module that exists.\<close>
definition mtimeElements :: "extern \<Rightarrow> path \<Rightarrow> string list" where
  "mtimeElements api n =
     (case mtimeMs api n of
        None \<Rightarrow> []
      | Some t \<Rightarrow> [CACHE_KEY_EL_SEPARATOR, n, CACHE_KEY_EL_SEPARATOR, t])"

section \<open>A concrete project\<close>

text \<open>
  A small project for evaluating the model. The content of a file is the list of the paths
  it imports, separated by blanks; a specifier resolves to itself; the files on disk are
  \<open>/p/a.ts\<close> (importing \<open>/p/b.ts\<close>), \<open>/p/b.ts\<close> (importing \<open>/p/c.ts\<close>), \<open>/p/c.ts\<close> and
  \<open>/p/bad.ts\<close> (importing \<open>/p/c.ts\<close>). The service emits the content of a file as its
  output and throws for a file whose content its host cannot supply.
  The service reports one semantic diagnostic for \<open>/p/bad.ts\<close> and none for other files.
  The reporting policy throws when it is handed diagnostics, except under the
  configuration \<open>warn\<close>, which only logs.
\<close>

definition demo_options :: compiler_options where
  "demo_options =
     \<lparr>co_module = Some CommonJS, co_esModuleInterop = None, co_moduleResolution = None,
      co_customConditions = None, co_allowJs = True, co_sourceMap = False,
      co_isolatedModules = False\<rparr>"

definition demo_cs :: config_set where
  "demo_cs =
     \<lparr>cs_isolatedModules = False, cs_useESM = False, cs_cwd = ''/p'', cs_rootDir = ''/p'',
      cs_tsCacheDir = Some ''/tmp/cache'', cs_cacheSuffix = ''sfx'',
      parsedTsConfig_options = demo_options,
      parsedTsConfig_fileNames = [''/p/a.ts'', ''/p/b.ts'', ''/p/c.ts''],
      shouldReportDiagnostics = (\<lambda>_. True),
      raiseDiagnostics = (\<lambda>ds _. if ds = [] then None else Some (TsError ds)),
      createTsError = TsError,
      shouldStringifyContent = (\<lambda>_. False),
      babelJestTransformer = None,
      isTestFile = (\<lambda>_. False)\<rparr>"

definition demo_files :: "(path \<times> string) list" where
  "demo_files =
     [(''/p/a.ts'', ''/p/b.ts''), (''/p/b.ts'', ''/p/c.ts''), (''/p/c.ts'', []),
      (''/p/bad.ts'', ''/p/c.ts'')]"

definition demo_api :: extern where
  "demo_api =
     \<lparr>preProcessFile =
        (\<lambda>s. filter (\<lambda>w. w \<noteq> []) (split_on CHR '' '' s)),
      resolveModuleName =
        (\<lambda>m _. Some \<lparr>resolvedFileName = m, isExternalLibraryImport = False\<rparr>),
      readFile = map_of demo_files,
      normalize = (\<lambda>p. p),
      basename = (\<lambda>p. last (split_on CHR ''/'' p)),
      path_sep = CHR ''/'',
      JS_JSX_REGEX = (\<lambda>p. suffix ''.js'' p \<or> suffix ''.jsx'' p),
      TS_TSX_REGEX = (\<lambda>p. suffix ''.ts'' p \<or> suffix ''.tsx'' p),
      DECLARATION_TYPE_EXT = ''.d.ts'',
      isModernNodeModuleKind = (\<lambda>m. m = Some Node16 \<or> m = Some NodeNext),
      moduleResolutionNode10 = 2,
      updateOutput = (\<lambda>text _ _. text),
      transpileModule =
        (\<lambda>text _ _ _. \<lparr>outputText = text, sourceMapText = None, to_diagnostics = None\<rparr>),
      tsTranspileModule =
        (\<lambda>text _ _ _. \<lparr>outputText = text, sourceMapText = None, to_diagnostics = None\<rparr>),
      ls_reads = (\<lambda>f. [f]),
      ls_program_reads = [],
      ls_getEmitOutput =
        (\<lambda>v f. case map_get (fst (snd v)) f of
                  None \<Rightarrow> Inl (ServiceError ''Could not find source file'')
                | Some c \<Rightarrow> Inr \<lparr>emitSkipped = False, outputFiles = [c]\<rparr>),
      ls_getSemanticDiagnostics =
        (\<lambda>_ f. Inr (if f = ''/p/bad.ts'' then [Diagnostic 2322 ''not assignable''] else [])),
      ls_getSyntacticDiagnostics = (\<lambda>_ _. Inr []),
      mtimeMs =
        map_of [(''/p/a.ts'', ''1''), (''/p/b.ts'', ''2''), (''/p/c.ts'', ''3''),
                (''/p/bad.ts'', ''4'')],
      sha1 = concat,
      stringify = (\<lambda>s. s),
      argv_watch = False,
      createConfigSet =
        (\<lambda>cfg. if cfg_rest cfg = ''isolated'' then demo_cs\<lparr>cs_isolatedModules := True\<rparr>
               else if cfg_rest cfg = ''stringify''
               then demo_cs\<lparr>shouldStringifyContent := (\<lambda>_. True)\<rparr>
               else if cfg_rest cfg = ''esm'' then demo_cs\<lparr>cs_useESM := True\<rparr>
               else if cfg_rest cfg = ''warn''
               then demo_cs\<lparr>raiseDiagnostics := (\<lambda>_ _. None)\<rparr>
               else demo_cs),
      stringify_config = cfg_rest,
      mergeTransformerOptions = (\<lambda>g t. (case g of None \<Rightarrow> [] | Some x \<Rightarrow> x) @ t),
      env_TS_JEST_HOOKS = None,
      loadHooks = (\<lambda>_ _. None)\<rparr>"

text \<open>A compiler of the project, just constructed, and a transformer in an empty registry.\<close>

definition demo_compiler :: compiler_state where
  "demo_compiler = newTsCompiler demo_api demo_cs (\<lambda>_. []) 0"

definition demo_world :: tstate where
  "demo_world = newTransformer None (emptyWorld demo_cs)"

definition demo_config :: "nat \<Rightarrow> string \<Rightarrow> jest_config" where
  "demo_config r body =
     \<lparr>cfg_ref = r, cacheDirectory = None, globals_ts_jest = None, cfg_rest = body\<rparr>"

definition demo_esm_options :: transform_options where
  "demo_esm_options =
     \<lparr>config = demo_config 1 ''esm'', cacheFS = 0, to_supportsStaticESM = True,
      instrument = None, transformerConfig_useESM = True\<rparr>"

definition demo_transform_options :: "nat \<Rightarrow> string \<Rightarrow> transform_options" where
  "demo_transform_options r body =
     \<lparr>config = demo_config r body, cacheFS = 0, to_supportsStaticESM = False,
      instrument = None, transformerConfig_useESM = False\<rparr>"

text \<open>
  A compiler of the project under the policy that only logs, the options of a request in
  watch mode with one recorded dependency graph (the reachable set of \<open>D\<close> is \<open>F\<close>), the
  options of a plain request, a service that skips every emission and reports a
  diagnostic for every file, and a service that emits no file.
\<close>

definition demo_warn_compiler :: compiler_state where
  "demo_warn_compiler =
     newTsCompiler demo_api (demo_cs\<lparr>raiseDiagnostics := (\<lambda>_ _. None)\<rparr>) (\<lambda>_. []) 0"

definition demo_watch_options :: "path \<Rightarrow> path \<Rightarrow> compile_options" where
  "demo_watch_options D F =
     \<lparr>depGraphs = [(D, \<lparr>dg_fileContent = F, resolvedModuleNames = [F]\<rparr>)],
      supportsStaticESM = False, watchMode = True\<rparr>"

definition demo_plain_options :: compile_options where
  "demo_plain_options = \<lparr>depGraphs = [], supportsStaticESM = False, watchMode = False\<rparr>"

definition demo_skip_api :: extern where
  "demo_skip_api =
     demo_api\<lparr>ls_getEmitOutput := (\<lambda>_ _. Inr \<lparr>emitSkipped = True, outputFiles = []\<rparr>),
              ls_getSemanticDiagnostics := (\<lambda>_ _. Inr [Diagnostic 7006 ''implicit any''])\<rparr>"

definition demo_noout_api :: extern where
  "demo_noout_api =
     demo_api\<lparr>ls_getEmitOutput := (\<lambda>_ _. Inr \<lparr>emitSkipped = False, outputFiles = []\<rparr>)\<rparr>"

section \<open>Properties of the dependency graph builder\<close>

text \<open>
  Claim C3. \<open>getResolvedModules\<close> is a total function, so it returns for every input, cyclic
  imports included. It does not return the transitive closure: \<open>forEach\<close> visits the direct
  imports of the root only, so the imports of a path that was appended during the iteration
  are not resolved. In the project, \<open>/p/root.ts\<close> imports \<open>/p/a.ts\<close>, which imports
  \<open>/p/b.ts\<close>, which imports \<open>/p/c.ts\<close>: the result lists \<open>/p/a.ts\<close> and \<open>/p/b.ts\<close>, and the
  direct import \<open>/p/c.ts\<close> of the listed \<open>/p/b.ts\<close> is missing. When one import is named
  twice in a visited file (here \<open>/p/a.ts\<close> in the run-time cache, naming \<open>/p/b.ts\<close> twice),
  the path is appended twice.
\<close>

theorem getResolvedModules_two_levels_only:
  "fst (getResolvedModules demo_api demo_compiler ''/p/a.ts'' ''/p/root.ts'' 0)
     = Inr [''/p/a.ts'', ''/p/b.ts'']
   \<and> getImportedModulePaths demo_api (readFile demo_api ''/p/b.ts'') ''/p/b.ts''
       = Inr [''/p/c.ts'']
   \<and> (case fst (getResolvedModules demo_api demo_compiler ''/p/a.ts'' ''/p/root.ts'' 0) of
         Inl e \<Rightarrow> False
       | Inr modulePaths \<Rightarrow> ''/p/c.ts'' \<notin> set modulePaths)
   \<and> fst (getResolvedModules demo_api
             (demo_compiler\<lparr>fsStore := (\<lambda>_. [(''/p/a.ts'', Some ''/p/b.ts /p/b.ts'')])\<rparr>)
             ''/p/a.ts'' ''/p/root.ts'' 0)
       = Inr [''/p/a.ts'', ''/p/b.ts'', ''/p/b.ts'']"
  by code_simp

section \<open>Properties of the cache key composer\<close>

text \<open>
  Claim C9. On the path that resolves the modules anew, \<open>getCacheKey\<close> does not drop the
  paths that are missing on disk: \<open>statSync\<close> throws for the first of them. Here the
  resolver (whose file-system probes are memoized) still yields \<open>/p/b.ts\<close>, which is no
  longer on disk, and the call ends with the error of \<open>statSync\<close>.
\<close>

theorem getCacheKey_throws_for_missing_resolved_file:
  "fst (getCacheKey (demo_api\<lparr>mtimeMs := map_of [(''/p/a.ts'', ''1'')]\<rparr>) demo_world
          ''/p/a.ts'' ''/p/root.ts'' (demo_transform_options 1 ''x''))
     = Inl (ENOENT ''/p/b.ts'')"
  by code_simp

section \<open>Properties of the session registry\<close>

text \<open>
  Claim C2. One transformer instance resolves two configurations that differ by reference
  and by serialized form. The registry then holds two records with two compilers
  (addresses 0 and 1) and one and the same dependency-graph map (address 0): the miss
  branch stores \<open>this._depGraphs\<close> as it is. The entry that a cache-key request under the
  first configuration stored for \<open>/p/root.ts\<close> is therefore found under the second
  configuration, which never resolved that file.
\<close>

theorem configsFor_shares_depGraphs_between_configurations:
  "(let st1 = snd (getCacheKey demo_api demo_world ''/p/a.ts'' ''/p/root.ts''
                     (demo_transform_options 1 ''x''));
        st2 = snd (configsFor demo_api st1 (demo_transform_options 2 ''y''))
    in map jestConfig_serialized (cachedConfigSets st2) = [''x'', ''y'']
       \<and> map ccs_compiler (cachedConfigSets st2) = [0, 1]
       \<and> map ccs_depGraphs (cachedConfigSets st2) = [0, 0]
       \<and> this_compiler st2 = Some 1
       \<and> map_of (depGraphHeap st2 (this_depGraphs st2)) ''/p/root.ts''
           = Some \<lparr>dg_fileContent = ''/p/a.ts'',
                    resolvedModuleNames = [''/p/a.ts'', ''/p/b.ts'']\<rparr>)"
  by code_simp

section \<open>Properties of the compile request\<close>

text \<open>
  Claim C6, as stated, fails: the test for content to stringify comes before the test for a
  declaration file. Under a configuration whose stringify pattern matches the path, the
  request for \<open>/p/a.d.ts\<close> returns the stringified content, not the empty code.
\<close>

theorem declaration_file_stringified_counterexample:
  "suffix (DECLARATION_TYPE_EXT demo_api) ''/p/a.d.ts''
   \<and> fst (processWithTs demo_api demo_world ''anything'' ''/p/a.d.ts''
            (demo_transform_options 1 ''stringify''))
       = Inr \<lparr>code = ''module.exports=anything'', diagnostics = None\<rparr>"
  by code_simp

text \<open>
  Claim C6, amended. For every content and all transform options whose configuration does
  not ask to stringify the path, \<open>processWithTs\<close> returns the empty code and no diagnostics
  for a path that ends in the declaration extension.
\<close>

theorem processWithTs_declaration_file:
  assumes "suffix (DECLARATION_TYPE_EXT api) sourcePath"
      and "\<not> shouldStringifyContent (fst (configsFor api st transformOptions)) sourcePath"
  shows "fst (processWithTs api st sourceText sourcePath transformOptions)
           = Inr \<lparr>code = [], diagnostics = None\<rparr>"
  using assms
  by (cases "configsFor api st transformOptions") (simp add: processWithTs_def Let_def)

theorem processWithTs_declaration_file_witness:
  "fst (processWithTs demo_api demo_world ''export const x: number'' ''/p/a.d.ts''
          (demo_transform_options 1 ''x''))
     = Inr \<lparr>code = [], diagnostics = None\<rparr>"
proof -
  have ext: "suffix (DECLARATION_TYPE_EXT demo_api) ''/p/a.d.ts''"
    by code_simp
  have plain: "\<not> shouldStringifyContent
                   (fst (configsFor demo_api demo_world (demo_transform_options 1 ''x'')))
                   ''/p/a.d.ts''"
    by code_simp
  show ?thesis
    using processWithTs_declaration_file [OF ext plain] by simp
qed

text \<open>
  Claim C10, as stated, fails for the same reason: under a configuration whose stringify
  pattern matches the path, a JavaScript file below \<open>node_modules\<close> is stringified and
  nothing is transpiled (the only entry of the log is that of the new registry record).
\<close>

theorem node_module_js_stringified_counterexample:
  "JS_JSX_REGEX demo_api ''/p/node_modules/m/i.js''
   \<and> isNodeModule demo_api ''/p/node_modules/m/i.js''
   \<and> fst (processWithTs demo_api demo_world ''x'' ''/p/node_modules/m/i.js''
            (demo_transform_options 1 ''stringify''))
       = Inr \<lparr>code = ''module.exports=x'', diagnostics = None\<rparr>
   \<and> t_trace (snd (processWithTs demo_api demo_world ''x'' ''/p/node_modules/m/i.js''
                      (demo_transform_options 1 ''stringify'')))
       = [LogInfo NoMatchingConfigSet]"
  by code_simp

text \<open>
  Claim C10, amended. For a JavaScript file (a path that matches the JavaScript pattern and
  does not end in the declaration extension) whose normalized path has a \<open>node_modules\<close>
  segment, under a configuration that does not ask to stringify the path, \<open>processWithTs\<close>
  returns the single-file transpilation of the content under the options of the project
  with the module kind set to ESNext when static ESM is supported and ESM is configured,
  to CommonJS otherwise; the result has no diagnostics, and the state is the one
  \<open>_configsFor\<close> left plus the log entry: no method of the compiler has run.
\<close>

theorem processWithTs_node_module_js:
  assumes "JS_JSX_REGEX api sourcePath"
      and "isNodeModule api sourcePath"
      and "\<not> suffix (DECLARATION_TYPE_EXT api) sourcePath"
      and "\<not> shouldStringifyContent (fst (configsFor api st transformOptions)) sourcePath"
  shows "let configs = fst (configsFor api st transformOptions);
             moduleKind = (if to_supportsStaticESM transformOptions \<and>
                              transformerConfig_useESM transformOptions
                           then ESNext else CommonJS);
             transpiled = transpileModule api sourceText sourcePath
                            ((parsedTsConfig_options configs)\<lparr>co_module := Some moduleKind\<rparr>)
                            False
         in processWithTs api st sourceText sourcePath transformOptions
            = (Inr \<lparr>code = updateOutput api (outputText transpiled) sourcePath
                               (sourceMapText transpiled),
                     diagnostics = None\<rparr>,
               t_log (Transpiled sourcePath (Some moduleKind))
                 (snd (configsFor api st transformOptions)))"
  using assms
  by (cases "configsFor api st transformOptions") (simp add: processWithTs_def Let_def)

theorem processWithTs_node_module_js_witness:
  "fst (processWithTs demo_api demo_world ''x'' ''/p/node_modules/m/i.js''
          (demo_transform_options 1 ''x''))
     = Inr \<lparr>code = ''x'', diagnostics = None\<rparr>
   \<and> t_trace (snd (processWithTs demo_api demo_world ''x'' ''/p/node_modules/m/i.js''
                      (demo_transform_options 1 ''x'')))
       = [LogInfo NoMatchingConfigSet, Transpiled ''/p/node_modules/m/i.js'' (Some CommonJS)]"
proof -
  have js: "JS_JSX_REGEX demo_api ''/p/node_modules/m/i.js''"
    by code_simp
  have nm: "isNodeModule demo_api ''/p/node_modules/m/i.js''"
    by code_simp
  have nd: "\<not> suffix (DECLARATION_TYPE_EXT demo_api) ''/p/node_modules/m/i.js''"
    by code_simp
  have plain: "\<not> shouldStringifyContent
                   (fst (configsFor demo_api demo_world (demo_transform_options 1 ''x'')))
                   ''/p/node_modules/m/i.js''"
    by code_simp
  have tr: "t_trace (snd (configsFor demo_api demo_world (demo_transform_options 1 ''x'')))
              = [LogInfo NoMatchingConfigSet]"
    by code_simp
  have out: "transpileModule demo_api = (\<lambda>text _ _ _. \<lparr>outputText = text, sourceMapText = None, to_diagnostics = None\<rparr>)"
            "updateOutput demo_api = (\<lambda>text _ _. text)"
    by (simp_all add: demo_api_def)
  have esm: "\<not> to_supportsStaticESM (demo_transform_options n b)" for n b
    by (simp add: demo_transform_options_def)
  show ?thesis
    using processWithTs_node_module_js [OF js nm nd plain, of "''x''"] tr
    by (simp add: Let_def t_log_def out esm)
qed

text \<open>
  Claim C7, as stated, fails: outside ESM mode the diagnostics of the file are handed to
  the reporting policy inside the compilation, and a policy that throws ends \<open>process\<close>
  with that error as well. For \<open>/p/bad.ts\<close>, whose diagnostics list is not empty, the
  synchronous entry point throws the error of the diagnostics, as the asynchronous one
  does.
\<close>

theorem process_throws_on_diagnostics_counterexample:
  "fst (process demo_api demo_world ''/p/c.ts'' ''/p/bad.ts'' (demo_transform_options 1 ''x''))
     = Inl (TsError [Diagnostic 2322 ''not assignable''])
   \<and> fst (processAsync demo_api demo_world ''/p/c.ts'' ''/p/bad.ts''
            (demo_transform_options 1 ''x''))
     = Inl (TsError [Diagnostic 2322 ''not assignable''])"
  by code_simp

text \<open>
  Claim C7, amended. \<open>process\<close> and \<open>processAsync\<close> resolve the configuration and compile in
  the same way. When the compilation throws (as it does when the reporting policy throws
  on the diagnostics of the file), both throw that error. Otherwise both take the code of
  the same compiled output and run the same post-processing on it (the secondary
  transformer when configured, by its synchronous contract in \<open>process\<close> and by its
  asynchronous contract in \<open>processAsync\<close>, then the hook), except that \<open>processAsync\<close>
  throws the error built from the diagnostics when the compiled output carries a non-empty
  list of them (in ESM mode, or under a policy that only logs), where \<open>process\<close> goes on as
  without diagnostics.
\<close>

theorem process_and_processAsync:
  assumes "configsFor api st transformOptions = (configs, st1)"
      and "processWithTs api st1 sourceText sourcePath transformOptions = (r, st2)"
  shows "let babelJest = (if shouldStringifyContent configs sourcePath then None
                          else babelJestTransformer configs)
         in case r of
              Inl e \<Rightarrow>
                process api st sourceText sourcePath transformOptions = (Inl e, st2) \<and>
                processAsync api st sourceText sourcePath transformOptions = (Inl e, st2)
            | Inr out \<Rightarrow>
                process api st sourceText sourcePath transformOptions
                  = postProcess api bj_process babelJest st2 sourceText sourcePath
                      transformOptions (code out) \<and>
                processAsync api st sourceText sourcePath transformOptions
                  = (if nonEmpty (diagnostics out)
                     then (Inl (createTsError configs (the (diagnostics out))), st2)
                     else postProcess api bj_processAsync babelJest st2 sourceText sourcePath
                            transformOptions (code out))"
  using assms
  by (simp add: process_def processAsync_def Let_def split: sum.splits)

theorem process_and_processAsync_witness:
  "fst (process demo_api demo_world ''/p/c.ts'' ''/p/bad.ts'' demo_esm_options)
     = Inr ''/p/c.ts''
   \<and> fst (processAsync demo_api demo_world ''/p/c.ts'' ''/p/bad.ts'' demo_esm_options)
     = Inl (TsError [Diagnostic 2322 ''not assignable''])"
proof -
  let ?cf = "configsFor demo_api demo_world demo_esm_options"
  let ?ts = "processWithTs demo_api (snd ?cf) ''/p/c.ts'' ''/p/bad.ts'' demo_esm_options"
  let ?out = "\<lparr>code = ''/p/c.ts'', diagnostics = Some [Diagnostic 2322 ''not assignable'']\<rparr>"
  have cf: "?cf = (fst ?cf, snd ?cf)" and ts: "?ts = (fst ?ts, snd ?ts)"
    by simp_all
  have r: "fst ?ts = Inr ?out"
    by code_simp
  have post: "fst (postProcess demo_api bj_process
                     (if shouldStringifyContent (fst ?cf) ''/p/bad.ts'' then None
                      else babelJestTransformer (fst ?cf))
                     (snd ?ts) ''/p/c.ts'' ''/p/bad.ts'' demo_esm_options ''/p/c.ts'')
                = Inr ''/p/c.ts''"
    by code_simp
  have err: "createTsError (fst ?cf) [Diagnostic 2322 ''not assignable'']
               = TsError [Diagnostic 2322 ''not assignable'']"
    by code_simp
  show ?thesis
    using process_and_processAsync [OF cf ts] post err
    by (simp add: r Let_def nonEmpty_def)
qed

section \<open>Properties of the compilation session: diagnostics of dependents\<close>

text \<open>
  Claim C5. The loop over the recorded dependency graphs is inside the branch for a
  non-empty list of diagnostics of the compiled file itself, after the call of the
  reporting policy. In watch mode, \<open>/p/c.ts\<close> is compiled; \<open>/p/bad.ts\<close> has \<open>/p/c.ts\<close> in
  its recorded reachable set, is to be checked by the policy and has a diagnostic, but
  \<open>/p/c.ts\<close> has no diagnostics of its own, so the service is asked about \<open>/p/c.ts\<close> only.
  And when the compiled file has diagnostics of its own (\<open>/p/bad.ts\<close>, with \<open>/p/a.ts\<close>
  depending on it), the policy of the project throws on them before the loop is reached:
  under a policy that throws the dependents are never checked.
\<close>

theorem watch_mode_dependents_not_rediagnosed:
  "hasLanguageService demo_compiler
   \<and> watchMode (demo_watch_options ''/p/bad.ts'' ''/p/c.ts'')
   \<and> shouldReportDiagnostics (configSet demo_compiler) ''/p/bad.ts''
   \<and> trace (snd (getCompiledOutput demo_api demo_compiler ''changed'' ''/p/c.ts''
                    (demo_watch_options ''/p/bad.ts'' ''/p/c.ts'')))
       = [EmitRequested ''/p/c.ts'', SemanticDiagnosticsRequested ''/p/c.ts'',
          SyntacticDiagnosticsRequested ''/p/c.ts'']
   \<and> fst (getCompiledOutput demo_api demo_compiler ''/p/c.ts'' ''/p/bad.ts''
            (demo_watch_options ''/p/a.ts'' ''/p/bad.ts''))
       = Inl (TsError [Diagnostic 2322 ''not assignable''])
   \<and> trace (snd (getCompiledOutput demo_api demo_compiler ''/p/c.ts'' ''/p/bad.ts''
                    (demo_watch_options ''/p/a.ts'' ''/p/bad.ts'')))
       = [EmitRequested ''/p/bad.ts'', SemanticDiagnosticsRequested ''/p/bad.ts'',
          SyntacticDiagnosticsRequested ''/p/bad.ts'',
          DiagnosticsRaised [Diagnostic 2322 ''not assignable''] ''/p/bad.ts'']"
  by code_simp

section \<open>Auxiliary facts about the compilation session\<close>

lemma log_event_simps [simp]:
  "configSet (log_event e s) = configSet s"
  "compilerOptions (log_event e s) = compilerOptions s"
  "fileVersionCache (log_event e s) = fileVersionCache s"
  "fileContentCache (log_event e s) = fileContentCache s"
  "projectVersion (log_event e s) = projectVersion s"
  "fsStore (log_event e s) = fsStore s"
  "runtimeCacheFS (log_event e s) = runtimeCacheFS s"
  "trace (log_event e s) = trace s @ [e]"
  by (simp_all add: log_event_def)

lemma getScriptSnapshot_frame [simp]:
  "configSet (getScriptSnapshot api s f) = configSet s"
  "compilerOptions (getScriptSnapshot api s f) = compilerOptions s"
  "projectVersion (getScriptSnapshot api s f) = projectVersion s"
  "fsStore (getScriptSnapshot api s f) = fsStore s"
  "runtimeCacheFS (getScriptSnapshot api s f) = runtimeCacheFS s"
  "trace (getScriptSnapshot api s f) = trace s"
  by (simp_all add: getScriptSnapshot_def Let_def split: option.splits)

lemma sync_frame [simp]:
  "configSet (sync api ps s) = configSet s"
  "compilerOptions (sync api ps s) = compilerOptions s"
  "projectVersion (sync api ps s) = projectVersion s"
  "fsStore (sync api ps s) = fsStore s"
  "runtimeCacheFS (sync api ps s) = runtimeCacheFS s"
  "trace (sync api ps s) = trace s"
  by (induction ps arbitrary: s; simp add: sync_def)+

lemma updateMemoryCache_frame [simp]:
  "configSet (updateMemoryCache s c f k) = configSet s"
  "compilerOptions (updateMemoryCache s c f k) = compilerOptions s"
  "fsStore (updateMemoryCache s c f k) = fsStore s"
  "runtimeCacheFS (updateMemoryCache s c f k) = runtimeCacheFS s"
  "trace (updateMemoryCache s c f k) = trace s"
  by (simp_all add: updateMemoryCache_def Let_def split: prod.splits)

lemma getFileContentFromCache_frame [simp]:
  "configSet (snd (getFileContentFromCache api s f)) = configSet s"
  "compilerOptions (snd (getFileContentFromCache api s f)) = compilerOptions s"
  "fileVersionCache (snd (getFileContentFromCache api s f)) = fileVersionCache s"
  "fileContentCache (snd (getFileContentFromCache api s f)) = fileContentCache s"
  "projectVersion (snd (getFileContentFromCache api s f)) = projectVersion s"
  "trace (snd (getFileContentFromCache api s f)) = trace s"
  by (simp_all add: getFileContentFromCache_def Let_def)

lemma getEmitOutput_frame [simp]:
  "configSet (snd (getEmitOutput api s f)) = configSet s"
  "compilerOptions (snd (getEmitOutput api s f)) = compilerOptions s"
  "trace (snd (getEmitOutput api s f)) = trace s @ [EmitRequested f]"
  by (simp_all add: getEmitOutput_def Let_def)

lemma bothDiagnostics_frame [simp]:
  "configSet (snd (bothDiagnostics api s f)) = configSet s"
  "compilerOptions (snd (bothDiagnostics api s f)) = compilerOptions s"
  by (simp_all add: bothDiagnostics_def getSemanticDiagnostics_def getSyntacticDiagnostics_def
        Let_def split: sum.splits)

lemma bothDiagnostics_trace:
  "\<exists>es. trace (snd (bothDiagnostics api s f)) = trace s @ es"
  by (simp add: bothDiagnostics_def getSemanticDiagnostics_def getSyntacticDiagnostics_def
        Let_def split: sum.splits)

lemma getDiagnostics_frame [simp]:
  "configSet (snd (getDiagnostics api s f)) = configSet s"
  "compilerOptions (snd (getDiagnostics api s f)) = compilerOptions s"
  by (simp_all add: getDiagnostics_def)

lemma getDiagnostics_trace:
  "\<exists>es. trace (snd (getDiagnostics api s f)) = trace s @ es"
  using bothDiagnostics_trace [of api s f] by (simp add: getDiagnostics_def)

lemma enterCompile_frame [simp]:
  "configSet (enterCompile api s options) = configSet s"
  "fileVersionCache (enterCompile api s options) = fileVersionCache s"
  "fileContentCache (enterCompile api s options) = fileContentCache s"
  "projectVersion (enterCompile api s options) = projectVersion s"
  "fsStore (enterCompile api s options) = fsStore s"
  "runtimeCacheFS (enterCompile api s options) = runtimeCacheFS s"
  by (simp_all add: enterCompile_def Let_def)

lemma enterCompile_compilerOptions:
  "compilerOptions (enterCompile api s options)
     = fixupCompilerOptionsForModuleKind api (initialCompilerOptions s) (isEsmMode s options)"
  by (simp add: enterCompile_def Let_def)

lemma enterCompile_trace:
  "\<exists>es. trace (enterCompile api s options) = trace s @ es"
  by (simp add: enterCompile_def Let_def)

lemma fixup_allowJs [simp]:
  "co_allowJs (fixupCompilerOptionsForModuleKind api opts esm) = co_allowJs opts"
  by (simp add: fixupCompilerOptionsForModuleKind_def Let_def)

lemma serviceState_frame [simp]:
  "configSet (serviceState api s c f options) = configSet s"
  "compilerOptions (serviceState api s c f options) = compilerOptions (enterCompile api s options)"
  "trace (serviceState api s c f options) = trace (enterCompile api s options)"
  by (simp_all add: serviceState_def Let_def)

lemma reTypeCheck_configSet [simp]:
  "configSet (snd (reTypeCheck api F entries s)) = configSet s"
proof (induction entries arbitrary: s)
  case Nil
  then show ?case by simp
next
  case (Cons entry rest)
  obtain D info where entry: "entry = (D, info)" by (cases entry)
  show ?case
    unfolding entry
    by (simp add: Let_def split_beta Cons.IH split: option.splits sum.splits)
qed

lemma reTypeCheck_trace:
  "\<exists>es. trace (snd (reTypeCheck api F entries s)) = trace s @ es"
proof (induction entries arbitrary: s)
  case Nil
  then show ?case by simp
next
  case (Cons entry rest)
  obtain D info where entry: "entry = (D, info)" by (cases entry)
  let ?s1 = "snd (getFileContentFromCache api s D)"
  let ?c = "fst (getFileContentFromCache api s D)"
  let ?b = "bothDiagnostics api (updateMemoryCache ?s1 ?c D True) D"
  from bothDiagnostics_trace [of api "updateMemoryCache ?s1 ?c D True" D]
  obtain eb where eb: "trace (snd ?b) = trace s @ eb" by auto
  have next_step: "\<exists>es. trace (snd (reTypeCheck api F rest
                      (log_event (DiagnosticsRaised ds F) (snd ?b)))) = trace s @ es" for ds
  proof -
    from Cons.IH [of "log_event (DiagnosticsRaised ds F) (snd ?b)"]
    obtain es where "trace (snd (reTypeCheck api F rest
                       (log_event (DiagnosticsRaised ds F) (snd ?b))))
                       = trace (log_event (DiagnosticsRaised ds F) (snd ?b)) @ es" by blast
    with eb show ?thesis by simp
  qed
  from Cons.IH [of s] obtain es' where
    es': "trace (snd (reTypeCheck api F rest s)) = trace s @ es'" by blast
  show ?case
    unfolding entry using eb next_step es'
    by (auto simp add: Let_def split_beta split: option.splits sum.splits)
qed

lemma reportDiagnostics_configSet [simp]:
  "configSet (snd (reportDiagnostics api s F options esm)) = configSet s"
  by (simp add: reportDiagnostics_def Let_def split_beta split: option.splits sum.splits)

lemma reportDiagnostics_trace:
  "\<exists>es. trace (snd (reportDiagnostics api s F options esm)) = trace s @ es"
proof -
  let ?d = "getDiagnostics api s F"
  from getDiagnostics_trace [of api s F]
  obtain e1 where e1: "trace (snd ?d) = trace s @ e1" by blast
  have w: "\<exists>es. trace (snd (reTypeCheck api F (depGraphs options)
                    (log_event (DiagnosticsRaised ds F) (snd ?d)))) = trace s @ es" for ds
  proof -
    from reTypeCheck_trace [of api F "depGraphs options"
           "log_event (DiagnosticsRaised ds F) (snd ?d)"]
    obtain es where "trace (snd (reTypeCheck api F (depGraphs options)
                       (log_event (DiagnosticsRaised ds F) (snd ?d))))
                       = trace (log_event (DiagnosticsRaised ds F) (snd ?d)) @ es" by blast
    with e1 show ?thesis by simp
  qed
  show ?thesis
    using e1 w
    by (auto simp add: reportDiagnostics_def Let_def split_beta split: option.splits sum.splits)
qed

lemma finishEmit_trace:
  "\<exists>es. trace (snd (finishEmit api s c F output ds)) = trace s @ es"
  by (auto simp add: finishEmit_def split: if_splits list.splits)

lemma finishEmit_configSet [simp]:
  "configSet (snd (finishEmit api s c F output ds)) = configSet s"
  by (auto simp add: finishEmit_def split: if_splits list.splits)

lemma configSet_newTsCompiler [simp]:
  "configSet (newTsCompiler api cs store a) = cs"
  by (simp add: newTsCompiler_def Let_def)

text \<open>
  A call in full-service mode that reaches the service is the request for the emit output,
  the reporting stage and the conversion of the emit output, in the states observed.
\<close>

lemma getCompiledOutput_stages:
  assumes full: "hasLanguageService s"
      and asked: "\<not> (JS_JSX_REGEX api fileName \<and>
                      \<not> co_allowJs (parsedTsConfig_options (configSet s)))"
  shows "getCompiledOutput api s fileContent fileName options =
           (let st = serviceState api s fileContent fileName options;
                e = getEmitOutput api st fileName;
                r = reportDiagnostics api (snd e) fileName options (isEsmMode s options)
            in case fst e of
                 Inl err \<Rightarrow> (Inl err, snd e)
               | Inr output \<Rightarrow>
                   (case fst r of
                      Inl err \<Rightarrow> (Inl err, snd r)
                    | Inr ds \<Rightarrow> finishEmit api (snd r) fileContent fileName output ds))"
proof -
  have "\<not> (JS_JSX_REGEX api fileName \<and>
            \<not> co_allowJs (compilerOptions (enterCompile api s options)))"
    using asked by (simp add: enterCompile_compilerOptions initialCompilerOptions_def)
  then show ?thesis
    using full
    by (auto simp add: getCompiledOutput_def compileWithService_def emitAndReport_def
          serviceState_def Let_def split_beta split: sum.splits)
qed

section \<open>Properties of the compilation session: skipped emission\<close>

text \<open>
  Claim C8, as stated, fails: the diagnostics are handed to the reporting policy before the
  emit output is looked at. For the JavaScript file \<open>/p/lib.js\<close> the service skips the
  emission and reports a diagnostic; the policy throws, and the request ends with that
  error instead of returning the original content.
\<close>

theorem emit_skipped_policy_throws_counterexample:
  "hasLanguageService demo_compiler
   \<and> serviceEmit demo_skip_api demo_compiler ''x'' ''/p/lib.js'' demo_plain_options
       = Inr \<lparr>emitSkipped = True, outputFiles = []\<rparr>
   \<and> \<not> TS_TSX_REGEX demo_skip_api ''/p/lib.js''
   \<and> fst (getCompiledOutput demo_skip_api demo_compiler ''x'' ''/p/lib.js'' demo_plain_options)
       = Inl (TsError [Diagnostic 7006 ''implicit any''])"
  by code_simp

text \<open>
  Claim C8, amended. In full-service mode, when the service is asked to emit (the file is
  not a JavaScript file with \<open>allowJs\<close> off) and answers with an emit output: if the
  reporting of the diagnostics, which comes before the emit output is looked at, aborts the
  request, \<open>getCompiledOutput\<close> throws the error of the reporting; if the reporting does not
  abort the request, then when the service reports the emission skipped \<open>getCompiledOutput\<close>
  throws the error naming the file for a file that matches the strictly-typed extension,
  and returns the original content with a warning for any other file, and when the
  emission is not skipped and there is no output file it throws the error naming the base
  name of the file.
\<close>

theorem getCompiledOutput_emit_skipped:
  assumes full: "hasLanguageService s"
      and asked: "\<not> (JS_JSX_REGEX api fileName \<and>
                      \<not> co_allowJs (parsedTsConfig_options (configSet s)))"
      and emitted: "serviceEmit api s fileContent fileName options = Inr output"
  shows "(reportingOutcome api s fileContent fileName options = Inl e \<longrightarrow>
            fst (getCompiledOutput api s fileContent fileName options) = Inl e)
       \<and> (reportingOutcome api s fileContent fileName options = Inr ds \<and>
          emitSkipped output \<and> TS_TSX_REGEX api fileName \<longrightarrow>
            fst (getCompiledOutput api s fileContent fileName options)
              = Inl (CannotProcessFile fileName))
       \<and> (reportingOutcome api s fileContent fileName options = Inr ds \<and>
          emitSkipped output \<and> \<not> TS_TSX_REGEX api fileName \<longrightarrow>
            fst (getCompiledOutput api s fileContent fileName options)
              = Inr \<lparr>code = fileContent, diagnostics = None\<rparr> \<and>
            LogWarn (CannotProcessFileReturnOriginal fileName)
              \<in> set (eventsDuring s (snd (getCompiledOutput api s fileContent fileName options))))
       \<and> (reportingOutcome api s fileContent fileName options = Inr ds \<and>
          \<not> emitSkipped output \<and> outputFiles output = [] \<longrightarrow>
            fst (getCompiledOutput api s fileContent fileName options)
              = Inl (UnableToRequireDefinitionFile (basename api fileName)))"
proof -
  define st where "st = serviceState api s fileContent fileName options"
  define E where "E = getEmitOutput api st fileName"
  define R where "R = reportDiagnostics api (snd E) fileName options (isEsmMode s options)"
  have emitted': "fst E = Inr output"
    using emitted by (simp add: serviceEmit_def E_def st_def)
  have outcome: "reportingOutcome api s fileContent fileName options = fst R"
    by (simp add: reportingOutcome_def R_def E_def st_def)
  have g: "getCompiledOutput api s fileContent fileName options
             = (case fst R of
                  Inl err \<Rightarrow> (Inl err, snd R)
                | Inr d \<Rightarrow> finishEmit api (snd R) fileContent fileName output d)"
    unfolding R_def E_def st_def
    using getCompiledOutput_stages [OF full asked, of fileContent options]
          emitted [unfolded serviceEmit_def]
    by (simp add: Let_def)
  from enterCompile_trace [of api s options]
  obtain es0 where es0: "trace st = trace s @ es0"
    unfolding st_def by auto
  from reportDiagnostics_trace [of api "snd E" fileName options "isEsmMode s options"]
  obtain es1 where es1: "trace (snd R) = trace s @ es1"
    unfolding R_def E_def using es0 by auto
  show ?thesis
    unfolding g outcome using es1
    by (auto simp add: finishEmit_def eventsDuring_def)
qed

theorem getCompiledOutput_emit_skipped_witness:
  "fst (getCompiledOutput demo_skip_api demo_compiler ''x'' ''/p/lib.js'' demo_plain_options)
     = Inl (TsError [Diagnostic 7006 ''implicit any''])
   \<and> fst (getCompiledOutput demo_skip_api demo_warn_compiler ''x'' ''/p/a.ts'' demo_plain_options)
     = Inl (CannotProcessFile ''/p/a.ts'')
   \<and> fst (getCompiledOutput demo_skip_api demo_warn_compiler ''x'' ''/p/lib.js''
            demo_plain_options)
     = Inr \<lparr>code = ''x'', diagnostics = None\<rparr>
   \<and> LogWarn (CannotProcessFileReturnOriginal ''/p/lib.js'')
     \<in> set (eventsDuring demo_warn_compiler
              (snd (getCompiledOutput demo_skip_api demo_warn_compiler ''x'' ''/p/lib.js''
                      demo_plain_options)))
   \<and> fst (getCompiledOutput demo_noout_api demo_compiler ''x'' ''/p/a.ts''
            demo_plain_options)
     = Inl (UnableToRequireDefinitionFile ''a.ts'')"
proof -
  have full: "hasLanguageService demo_warn_compiler" "hasLanguageService demo_compiler"
    by code_simp+
  have asked: "\<not> (JS_JSX_REGEX api f \<and>
                    \<not> co_allowJs (parsedTsConfig_options (configSet demo_warn_compiler)))"
              "\<not> (JS_JSX_REGEX api f \<and>
                    \<not> co_allowJs (parsedTsConfig_options (configSet demo_compiler)))" for api f
    by (simp_all add: demo_warn_compiler_def demo_compiler_def demo_cs_def demo_options_def)
  have ts: "TS_TSX_REGEX demo_skip_api ''/p/a.ts''" "\<not> TS_TSX_REGEX demo_skip_api ''/p/lib.js''"
    by code_simp+
  have skipped:
    "serviceEmit demo_skip_api demo_compiler ''x'' ''/p/lib.js'' demo_plain_options
       = Inr \<lparr>emitSkipped = True, outputFiles = []\<rparr>"
    "serviceEmit demo_skip_api demo_warn_compiler ''x'' ''/p/a.ts'' demo_plain_options
       = Inr \<lparr>emitSkipped = True, outputFiles = []\<rparr>"
    "serviceEmit demo_skip_api demo_warn_compiler ''x'' ''/p/lib.js'' demo_plain_options
       = Inr \<lparr>emitSkipped = True, outputFiles = []\<rparr>"
    by code_simp+
  have noout:
    "serviceEmit demo_noout_api demo_compiler ''x'' ''/p/a.ts'' demo_plain_options
       = Inr \<lparr>emitSkipped = False, outputFiles = []\<rparr>"
    by code_simp
  have outcome:
    "reportingOutcome demo_skip_api demo_compiler ''x'' ''/p/lib.js'' demo_plain_options
       = Inl (TsError [Diagnostic 7006 ''implicit any''])"
    "reportingOutcome demo_skip_api demo_warn_compiler ''x'' ''/p/a.ts'' demo_plain_options
       = Inr [Diagnostic 7006 ''implicit any'']"
    "reportingOutcome demo_skip_api demo_warn_compiler ''x'' ''/p/lib.js'' demo_plain_options
       = Inr [Diagnostic 7006 ''implicit any'']"
    "reportingOutcome demo_noout_api demo_compiler ''x'' ''/p/a.ts'' demo_plain_options
       = Inr []"
    by code_simp+
  have base: "basename demo_noout_api ''/p/a.ts'' = ''a.ts''"
    by code_simp
  show ?thesis
    using getCompiledOutput_emit_skipped [OF full(2) asked(2) skipped(1),
            where e = "TsError [Diagnostic 7006 ''implicit any'']"]
          getCompiledOutput_emit_skipped [OF full(1) asked(1) skipped(2),
            where ds = "[Diagnostic 7006 ''implicit any'']"]
          getCompiledOutput_emit_skipped [OF full(1) asked(1) skipped(3),
            where ds = "[Diagnostic 7006 ''implicit any'']"]
          getCompiledOutput_emit_skipped [OF full(2) asked(2) noout, where ds = "[]"]
    by (simp add: ts outcome base)
qed

end
